theory Spec2Isabelle
  imports Complex_Main
begin

section \<open>Values raised and returned\<close>

text \<open>
  The module \<^verbatim>\<open>utils/utils.py\<close> places a file on disk through an external accelerator
  (\<^verbatim>\<open>aria2c\<close>, run as a subprocess) or through a streaming HTTP request, and then
  optionally re-encodes it as artwork. Everything the code does to the outside is made
  explicit here: the filesystem, the module global \<^verbatim>\<open>_aria2c_installed\<close> and the
  sequence of outside calls are fields of a state that each function takes and returns,
  and whatever the outside answers (the subprocess, the server, the image library) is
  read from a record of answers given to the call.

  Python separates the classes below \<^verbatim>\<open>Exception\<close> from \<^verbatim>\<open>KeyboardInterrupt\<close> and
  \<^verbatim>\<open>SystemExit\<close>, which derive from \<^verbatim>\<open>BaseException\<close> only: a handler
  \<^verbatim>\<open>except Exception\<close> matches the first kind and lets the second through.
\<close>

type_synonym bytes = "nat list"
type_synonym path = string

datatype exception =
    FileNotFoundError
  | FileExistsError
  | IsADirectoryError
  | NotADirectoryError
  | PermissionError
  | OSError
  | CalledProcessError
  | HTTPError int
  | RequestException
  | ValueError
  | ImageError

datatype raised = Exception exception | KeyboardInterrupt | SystemExit

fun is_OSError :: "exception \<Rightarrow> bool" where
  "is_OSError FileNotFoundError = True"
| "is_OSError FileExistsError = True"
| "is_OSError IsADirectoryError = True"
| "is_OSError NotADirectoryError = True"
| "is_OSError PermissionError = True"
| "is_OSError OSError = True"
| "is_OSError _ = False"

text \<open>\<^verbatim>\<open>errno.ENOENT\<close> is the error number of \<^verbatim>\<open>FileNotFoundError\<close>.\<close>

fun errno_is_ENOENT :: "exception \<Rightarrow> bool" where
  "errno_is_ENOENT FileNotFoundError = True"
| "errno_is_ENOENT _ = False"

section \<open>Strings and paths\<close>

text \<open>\<^verbatim>\<open>str.lower\<close> on ASCII text, and the test \<^verbatim>\<open>needle in haystack\<close>.\<close>

definition lower_char :: "char \<Rightarrow> char" where
  "lower_char c =
     (case map_of (zip ''ABCDEFGHIJKLMNOPQRSTUVWXYZ'' ''abcdefghijklmnopqrstuvwxyz'') c of
        Some l \<Rightarrow> l
      | None \<Rightarrow> c)"

definition lower :: "string \<Rightarrow> string" where
  "lower s = map lower_char s"

fun contains :: "string \<Rightarrow> string \<Rightarrow> bool" where
  "contains needle [] = (needle = [])"
| "contains needle (c # cs) =
     (take (length needle) (c # cs) = needle \<or> contains needle cs)"

text \<open>
  \<^verbatim>\<open>os.path.dirname\<close> and \<^verbatim>\<open>os.path.basename\<close> of \<^verbatim>\<open>posixpath\<close>: the path is cut
  after its last slash; the head loses its trailing slashes unless it consists of
  slashes only.
\<close>

definition basename :: "path \<Rightarrow> string" where
  "basename p = rev (takeWhile (\<lambda>c. c \<noteq> CHR ''/'') (rev p))"

definition dirname :: "path \<Rightarrow> path" where
  "dirname p =
     (let head = take (length p - length (basename p)) p in
      if head \<noteq> [] \<and> \<not> list_all (\<lambda>c. c = CHR ''/'') head
      then rev (dropWhile (\<lambda>c. c = CHR ''/'') (rev head))
      else head)"

section \<open>The filesystem\<close>

text \<open>
  A path is identified with its string (no \<^verbatim>\<open>.\<close> or \<^verbatim>\<open>..\<close> is resolved). A node is a
  regular file with its content or a directory. A file can be opened for writing when the
  directory named by \<open>dirname\<close> is listed (or is empty or the root, which always exist).
\<close>

datatype node = File bytes | Dir

type_synonym filesystem = "path \<rightharpoonup> node"

definition isfile :: "filesystem \<Rightarrow> path \<Rightarrow> bool" where
  "isfile fsys p = (case fsys p of Some (File _) \<Rightarrow> True | _ \<Rightarrow> False)"

definition exists_path :: "filesystem \<Rightarrow> path \<Rightarrow> bool" where
  "exists_path fsys p = (fsys p \<noteq> None)"

text \<open>\<^verbatim>\<open>os.path.getsize\<close>; the size the platform reports for a directory is a parameter.\<close>

definition getsize :: "nat \<Rightarrow> filesystem \<Rightarrow> path \<Rightarrow> exception + nat" where
  "getsize dir_size fsys p =
     (case fsys p of
        None \<Rightarrow> Inl FileNotFoundError
      | Some Dir \<Rightarrow> Inr dir_size
      | Some (File b) \<Rightarrow> Inr (length b))"

definition os_remove :: "filesystem \<Rightarrow> path \<Rightarrow> exception + filesystem" where
  "os_remove fsys p =
     (case fsys p of
        None \<Rightarrow> Inl FileNotFoundError
      | Some Dir \<Rightarrow> Inl IsADirectoryError
      | Some (File _) \<Rightarrow> Inr (fsys(p := None)))"

text \<open>
  The proper ancestors of a path, outermost first: its prefixes that end before a slash
  (a slash that follows a slash ends no new prefix).
\<close>

fun ancestors_from :: "path \<Rightarrow> path \<Rightarrow> path list" where
  "ancestors_from seen [] = []"
| "ancestors_from seen (c # cs) =
     (if c = CHR ''/'' \<and> seen \<noteq> [] \<and> last seen \<noteq> CHR ''/''
      then seen # ancestors_from (seen @ [c]) cs
      else ancestors_from (seen @ [c]) cs)"

text \<open>
  The directories of a list are made in turn. One that is there already is kept; a
  regular file in the way raises \<^verbatim>\<open>NotADirectoryError\<close> when it is an ancestor and
  \<^verbatim>\<open>FileExistsError\<close> when it is the last name.
\<close>

fun make_each :: "filesystem \<Rightarrow> path list \<Rightarrow> exception + filesystem" where
  "make_each fsys [] = Inr fsys"
| "make_each fsys (d # rest) =
     (case fsys d of
        None \<Rightarrow> make_each (fsys(d \<mapsto> Dir)) rest
      | Some Dir \<Rightarrow> make_each fsys rest
      | Some (File _) \<Rightarrow> Inl (if rest = [] then FileExistsError else NotADirectoryError))"

text \<open>
  \<^verbatim>\<open>os.makedirs(directory, exist_ok=True)\<close>: the empty name is refused, the root is there,
  and any other directory is made together with its missing ancestors.
\<close>

definition os_makedirs :: "filesystem \<Rightarrow> path \<Rightarrow> exception + filesystem" where
  "os_makedirs fsys d =
     (if d = [] then Inl FileNotFoundError
      else if list_all (\<lambda>c. c = CHR ''/'') d then Inr fsys
      else make_each fsys (ancestors_from [] d @ [d]))"

definition parent_exists :: "filesystem \<Rightarrow> path \<Rightarrow> bool" where
  "parent_exists fsys p =
     (list_all (\<lambda>c. c = CHR ''/'') (dirname p) \<or> fsys (dirname p) = Some Dir)"

text \<open>\<^verbatim>\<open>open(file_location, 'wb')\<close>: creates the file or truncates it.\<close>

definition os_open_wb :: "filesystem \<Rightarrow> path \<Rightarrow> exception + filesystem" where
  "os_open_wb fsys p =
     (if p = [] then Inl FileNotFoundError
      else if parent_exists fsys p then
        (if fsys p = Some Dir \<or> basename p = [] then Inl IsADirectoryError
         else Inr (fsys(p \<mapsto> File [])))
      else Inl FileNotFoundError)"

section \<open>The state and the outside calls\<close>

datatype message =
    Msg_downloading_with_aria2c
  | Msg_aria2c_failed
  | Msg_aria2c_not_found
  | Msg_aria2c_unexpected
  | Msg_error_processing_artwork

datatype resample = NEAREST | BILINEAR | BICUBIC | LANCZOS

datatype save_params = No_params | Quality int | Compress_level int

type_synonym header_map = "(string \<times> string) list"

datatype event =
    SubprocessRun "string list"
  | MakeDirs path
  | SessionGet string header_map
  | OpenWrite path
  | Remove path
  | Print message
  | ImageOpen path
  | ImageConvert string
  | ImageResize "int \<times> int" resample
  | ImageSave path string save_params

text \<open>
  \<open>aria2c_installed\<close> is the module global \<^verbatim>\<open>_aria2c_installed\<close> (\<open>None\<close>, \<open>True\<close> or
  \<open>False\<close>); \<open>trace\<close> lists the outside calls made so far, oldest first.
\<close>

record world =
  fs :: filesystem
  aria2c_installed :: "bool option"
  trace :: "event list"

definition emit :: "event \<Rightarrow> world \<Rightarrow> world" where
  "emit ev w = w\<lparr>trace := trace w @ [ev]\<rparr>"

text \<open>What a subprocess does: it cannot be started, or it exits.\<close>

datatype run_result =
    RunRaises raised
  | RunCompleted int string string

text \<open>
  The answer to the GET request, after the session's own retries: \<open>content_length\<close> is
  absent when the header is, and otherwise what \<^verbatim>\<open>int()\<close> makes of it; \<open>body\<close> are the
  chunks \<^verbatim>\<open>iter_content\<close> yields and \<open>body_raises\<close> what ends the loop early after them
  (a dropped connection, a failed write, an interruption).
\<close>

record response =
  status_code :: int
  content_length :: "(exception + int) option"
  body :: "bytes list"
  body_raises :: "raised option"

datatype get_result = GetRaises raised | GetResponse response

record image =
  im_mode :: string
  im_size :: "int \<times> int"

text \<open>
  A failed \<^verbatim>\<open>Image.save\<close> may already have written to the file: \<open>SaveRaises e left\<close>
  carries the content it left there (\<open>None\<close> when the file was not written).
\<close>

datatype save_result = SaveOk | SaveRaises raised "bytes option"

record env =
  version_run :: run_result
  download_run :: run_result
  download_leaves :: "bytes option"
  dir_st_size :: nat
  session_get :: get_result
  image_open :: "bytes \<Rightarrow> raised + image"
  image_convert_raises :: "raised option"
  image_resize_raises :: "raised option"
  image_save :: save_result
  image_encode :: "image \<Rightarrow> string \<Rightarrow> save_params \<Rightarrow> bytes"

text \<open>\<^verbatim>\<open>subprocess.run(..., check=check)\<close>.\<close>

definition subprocess_run :: "run_result \<Rightarrow> bool \<Rightarrow> raised + (int \<times> string \<times> string)" where
  "subprocess_run r check =
     (case r of
        RunRaises e \<Rightarrow> Inl e
      | RunCompleted returncode out err \<Rightarrow>
          if check \<and> returncode \<noteq> 0 then Inl (Exception CalledProcessError)
          else Inr (returncode, out, err))"

section \<open>The retrying session\<close>

record retry =
  retry_total :: nat
  backoff_factor :: rat
  status_forcelist :: "int list"

datatype http_adapter = HTTPAdapter retry

text \<open>A session is its table of mounted adapters; \<open>mount\<close> replaces the entry of a prefix.\<close>

type_synonym session = "(string \<times> http_adapter) list"

definition mount :: "string \<Rightarrow> http_adapter \<Rightarrow> session \<Rightarrow> session" where
  "mount prefix adapter s = (prefix, adapter) # filter (\<lambda>(p, _). p \<noteq> prefix) s"

definition create_requests_session :: "session \<Rightarrow> session" where
  "create_requests_session new_session =
     (let session0 = new_session;
          retries = \<lparr>retry_total = 10, backoff_factor = 4 / 10,
                     status_forcelist = [429, 500, 502, 503, 504]\<rparr>;
          session1 = mount ''http://'' (HTTPAdapter retries) session0;
          session2 = mount ''https://'' (HTTPAdapter retries) session1
      in session2)"

section \<open>The probe\<close>

fun probe_catches :: "raised \<Rightarrow> bool" where
  "probe_catches (Exception CalledProcessError) = True"
| "probe_catches (Exception FileNotFoundError) = True"
| "probe_catches _ = False"

definition is_aria2c_installed :: "env \<Rightarrow> world \<Rightarrow> (raised + bool) \<times> world" where
  "is_aria2c_installed en w =
     (case aria2c_installed w of
        Some b \<Rightarrow> (Inr b, w)
      | None \<Rightarrow>
          (let w1 = emit (SubprocessRun [''aria2c'', ''--version'']) w in
           case subprocess_run (version_run en) True of
             Inr (returncode, out, err) \<Rightarrow>
               (let b = contains ''aria2 version'' (lower out)
                in (Inr b, w1\<lparr>aria2c_installed := Some b\<rparr>))
           | Inl e \<Rightarrow>
               if probe_catches e then (Inr False, w1\<lparr>aria2c_installed := Some False\<rparr>)
               else (Inl e, w1)))"

section \<open>Removing a file\<close>

definition silentremove :: "path \<Rightarrow> world \<Rightarrow> (raised + unit) \<times> world" where
  "silentremove filename w =
     (let w1 = emit (Remove filename) w in
      case os_remove (fs w1) filename of
        Inr fsys \<Rightarrow> (Inr (), w1\<lparr>fs := fsys\<rparr>)
      | Inl e \<Rightarrow>
          if is_OSError e then
            (if \<not> errno_is_ENOENT e then (Inl (Exception e), w1) else (Inr (), w1))
          else (Inl (Exception e), w1))"

section \<open>The accelerator attempt\<close>

definition header_argument :: "string \<times> string \<Rightarrow> string" where
  "header_argument kv = (case kv of (key, val) \<Rightarrow> ''--header='' @ key @ '': '' @ val)"

definition aria2c_command :: "path \<Rightarrow> string \<Rightarrow> header_map \<Rightarrow> string \<Rightarrow> string list" where
  "aria2c_command directory filename headers url =
     [''aria2c'',
      ''--dir'', directory,
      ''--out'', filename,
      ''--max-connection-per-server=8'',
      ''--min-split-size=1M'',
      ''--split=8'',
      ''--continue=true'',
      ''--auto-file-renaming=false'',
      ''--console-log-level=warn'',
      ''--show-console-readout=false'',
      ''--summary-interval=0'',
      ''--allow-overwrite=true'']
     @ map header_argument headers
     @ [url]"

text \<open>
  The body of the \<^verbatim>\<open>try\<close> around the accelerator run: the value is \<^verbatim>\<open>aria2c_used\<close>.
  Whatever the accelerator wrote at the destination (\<open>download_leaves\<close>) is on disk
  when \<^verbatim>\<open>subprocess.run\<close> comes back.
\<close>

definition aria2c_try :: "env \<Rightarrow> string list \<Rightarrow> path \<Rightarrow> bool \<Rightarrow> world \<Rightarrow> (raised + bool) \<times> world" where
  "aria2c_try en command file_location enable_progress_bar w =
     (let w1 = (if enable_progress_bar then emit (Print Msg_downloading_with_aria2c) w else w);
          w2 = emit (SubprocessRun command) w1;
          w3 = (case download_leaves en of
                  None \<Rightarrow> w2
                | Some b \<Rightarrow> w2\<lparr>fs := (fs w2)(file_location \<mapsto> File b)\<rparr>)
      in case subprocess_run (download_run en) False of
           Inl e \<Rightarrow> (Inl e, w3)
         | Inr (returncode, out, err) \<Rightarrow>
             if returncode = 0 then (Inr True, w3)
             else
               (let w4 = emit (Print Msg_aria2c_failed) w3 in
                if exists_path (fs w4) file_location then
                  (case getsize (dir_st_size en) (fs w4) file_location of
                     Inl e \<Rightarrow> (Inl (Exception e), w4)
                   | Inr actual_size \<Rightarrow>
                       if actual_size = 0 then
                         (case silentremove file_location w4 of
                            (Inl e, w5) \<Rightarrow> (Inl e, w5)
                          | (Inr _, w5) \<Rightarrow> (Inr False, w5))
                       else (Inr False, w4))
                else (Inr False, w4)))"

text \<open>
  The two handlers of that \<^verbatim>\<open>try\<close>. The first assigns \<^verbatim>\<open>_aria2c_installed = False\<close> in a
  function that has no \<^verbatim>\<open>global\<close> declaration for the name, which binds a local
  variable: the module global, the field \<open>aria2c_installed\<close>, is not written.
\<close>

definition aria2c_except :: "path \<Rightarrow> (raised + bool) \<times> world \<Rightarrow> (raised + bool) \<times> world" where
  "aria2c_except file_location r =
     (case r of
        (Inr used, w) \<Rightarrow> (Inr used, w)
      | (Inl KeyboardInterrupt, w) \<Rightarrow> (Inl KeyboardInterrupt, w)
      | (Inl SystemExit, w) \<Rightarrow> (Inl SystemExit, w)
      | (Inl (Exception e), w) \<Rightarrow>
          if e = FileNotFoundError then (Inr False, emit (Print Msg_aria2c_not_found) w)
          else
            (let w1 = emit (Print Msg_aria2c_unexpected) w in
             if exists_path (fs w1) file_location then
               (case silentremove file_location w1 of
                  (Inl e', w2) \<Rightarrow> (Inl e', w2)
                | (Inr _, w2) \<Rightarrow> (Inr False, w2))
             else (Inr False, w1)))"

text \<open>The block under \<^verbatim>\<open>if is_aria2c_installed():\<close>.\<close>

definition aria2c_block :: "env \<Rightarrow> string \<Rightarrow> path \<Rightarrow> header_map \<Rightarrow> bool \<Rightarrow> world \<Rightarrow> (raised + bool) \<times> world" where
  "aria2c_block en url file_location headers enable_progress_bar w =
     (let directory = dirname file_location;
          filename = basename file_location;
          w1 = emit (MakeDirs directory) w
      in case os_makedirs (fs w1) directory of
           Inl e \<Rightarrow> (Inl (Exception e), w1)
         | Inr fsys \<Rightarrow>
             aria2c_except file_location
               (aria2c_try en (aria2c_command directory filename headers url)
                  file_location enable_progress_bar (w1\<lparr>fs := fsys\<rparr>)))"

section \<open>The streaming fallback\<close>

fun write_chunks :: "bytes list \<Rightarrow> bytes \<Rightarrow> bytes" where
  "write_chunks [] written = written"
| "write_chunks (chunk # rest) written =
     write_chunks rest (if chunk \<noteq> [] then written @ chunk else written)"

text \<open>
  The \<^verbatim>\<open>with open(file_location, 'wb')\<close> block. The progress bar only displays, and both
  branches of the source run the same loop over the chunks; leaving the block closes the
  file, so what was written before an exception is on disk.
\<close>

definition write_body :: "response \<Rightarrow> path \<Rightarrow> world \<Rightarrow> (raised + unit) \<times> world" where
  "write_body r file_location w =
     (let w1 = emit (OpenWrite file_location) w in
      case os_open_wb (fs w1) file_location of
        Inl e \<Rightarrow> (Inl (Exception e), w1)
      | Inr fsys \<Rightarrow>
          (let w2 = w1\<lparr>fs := fsys(file_location \<mapsto> File (write_chunks (body r) []))\<rparr> in
           case body_raises r of
             Some e \<Rightarrow> (Inl e, w2)
           | None \<Rightarrow> (Inr (), w2)))"

text \<open>The handler \<^verbatim>\<open>except Exception as e\<close> of the write block.\<close>

definition write_except :: "path \<Rightarrow> (raised + unit) \<times> world \<Rightarrow> (raised + unit) \<times> world" where
  "write_except file_location r =
     (case r of
        (Inr u, w) \<Rightarrow> (Inr u, w)
      | (Inl KeyboardInterrupt, w) \<Rightarrow> (Inl KeyboardInterrupt, w)
      | (Inl SystemExit, w) \<Rightarrow> (Inl SystemExit, w)
      | (Inl (Exception e), w) \<Rightarrow>
          if isfile (fs w) file_location then
            (case silentremove file_location w of
               (Inl e', w1) \<Rightarrow> (Inl e', w1)
             | (Inr _, w1) \<Rightarrow> (Inl (Exception e), w1))
          else (Inl (Exception e), w))"

text \<open>The block under \<^verbatim>\<open>if not aria2c_used:\<close>.\<close>

definition requests_block :: "env \<Rightarrow> string \<Rightarrow> path \<Rightarrow> header_map \<Rightarrow> world \<Rightarrow> (raised + unit) \<times> world" where
  "requests_block en url file_location headers w =
     (let w1 = emit (SessionGet url headers) w in
      case session_get en of
        GetRaises e \<Rightarrow> (Inl e, w1)
      | GetResponse r \<Rightarrow>
          if 400 \<le> status_code r \<and> status_code r < 600
          then (Inl (Exception (HTTPError (status_code r))), w1)
          else
            (case content_length r of
               Some (Inl e) \<Rightarrow> (Inl (Exception e), w1)
             | _ \<Rightarrow> write_except file_location (write_body r file_location w1)))"

section \<open>Artwork\<close>

record artwork_settings =
  should_resize :: "bool option"
  resolution :: "int option"
  format :: "string option"
  compression :: "string option"

definition image_load :: "env \<Rightarrow> path \<Rightarrow> world \<Rightarrow> (raised + image) \<times> world" where
  "image_load en file_location w =
     (let w1 = emit (ImageOpen file_location) w in
      case fs w1 file_location of
        Some (File b) \<Rightarrow> (image_open en b, w1)
      | Some Dir \<Rightarrow> (Inl (Exception IsADirectoryError), w1)
      | None \<Rightarrow> (Inl (Exception FileNotFoundError), w1))"

definition image_convert :: "env \<Rightarrow> image \<Rightarrow> string \<Rightarrow> world \<Rightarrow> (raised + image) \<times> world" where
  "image_convert en im m w =
     (let w1 = emit (ImageConvert m) w in
      case image_convert_raises en of
        Some e \<Rightarrow> (Inl e, w1)
      | None \<Rightarrow> (Inr (im\<lparr>im_mode := m\<rparr>), w1))"

definition image_resize :: "env \<Rightarrow> image \<Rightarrow> int \<times> int \<Rightarrow> resample \<Rightarrow> world \<Rightarrow> (raised + image) \<times> world" where
  "image_resize en im sz flt w =
     (let w1 = emit (ImageResize sz flt) w in
      case image_resize_raises en of
        Some e \<Rightarrow> (Inl e, w1)
      | None \<Rightarrow> (Inr (im\<lparr>im_size := sz\<rparr>), w1))"

definition image_save_to :: "env \<Rightarrow> image \<Rightarrow> path \<Rightarrow> string \<Rightarrow> save_params \<Rightarrow> world \<Rightarrow> (raised + unit) \<times> world" where
  "image_save_to en im file_location fmt params w =
     (let w1 = emit (ImageSave file_location fmt params) w in
      case image_save en of
        SaveOk \<Rightarrow>
          (Inr (), w1\<lparr>fs := (fs w1)(file_location \<mapsto> File (image_encode en im fmt params))\<rparr>)
      | SaveRaises e left \<Rightarrow>
          (Inl e, case left of
                    None \<Rightarrow> w1
                  | Some b \<Rightarrow> w1\<lparr>fs := (fs w1)(file_location \<mapsto> File b)\<rparr>))"

text \<open>
  The settings read at the head of the artwork step, under the names of the source's
  variables; a key that is absent takes the default of \<^verbatim>\<open>dict.get\<close>.
\<close>

definition new_resolution :: "artwork_settings \<Rightarrow> int" where
  "new_resolution settings = (case resolution settings of None \<Rightarrow> 1400 | Some r \<Rightarrow> r)"

definition new_format :: "artwork_settings \<Rightarrow> string" where
  "new_format settings =
     (let f = lower (case format settings of None \<Rightarrow> ''jpeg'' | Some f \<Rightarrow> f)
      in if f = ''jpg'' then ''jpeg'' else f)"

definition compression_setting :: "artwork_settings \<Rightarrow> string" where
  "compression_setting settings =
     lower (case compression settings of None \<Rightarrow> ''low'' | Some c \<Rightarrow> c)"

definition new_compression_quality :: "artwork_settings \<Rightarrow> int" where
  "new_compression_quality settings =
     (if compression_setting settings = ''high'' then 70 else 90)"

text \<open>The body of the \<^verbatim>\<open>try\<close> of the artwork step.\<close>

definition artwork_try :: "env \<Rightarrow> path \<Rightarrow> artwork_settings \<Rightarrow> world \<Rightarrow> (raised + unit) \<times> world" where
  "artwork_try en file_location settings w =
     (case image_load en file_location w of
        (Inl e, w1) \<Rightarrow> (Inl e, w1)
      | (Inr im0, w1) \<Rightarrow>
          (case (if im_mode im0 = ''P'' then image_convert en im0 ''RGB'' w1
                 else (Inr im0, w1)) of
             (Inl e, w2) \<Rightarrow> (Inl e, w2)
           | (Inr im1, w2) \<Rightarrow>
               (case image_resize en im1
                       (new_resolution settings, new_resolution settings) BICUBIC w2 of
                  (Inl e, w3) \<Rightarrow> (Inl e, w3)
                | (Inr im2, w3) \<Rightarrow>
                    if new_format settings = ''jpeg'' then
                      image_save_to en im2 file_location (new_format settings)
                        (Quality (new_compression_quality settings)) w3
                    else if new_format settings = ''png'' then
                      image_save_to en im2 file_location (new_format settings)
                        (Compress_level 6) w3
                    else
                      image_save_to en im2 file_location (new_format settings)
                        No_params w3)))"

text \<open>The handler \<^verbatim>\<open>except Exception as e\<close> of the artwork step: it prints.\<close>

definition artwork_except :: "(raised + unit) \<times> world \<Rightarrow> (raised + unit) \<times> world" where
  "artwork_except r =
     (case r of
        (Inr u, w) \<Rightarrow> (Inr u, w)
      | (Inl KeyboardInterrupt, w) \<Rightarrow> (Inl KeyboardInterrupt, w)
      | (Inl SystemExit, w) \<Rightarrow> (Inl SystemExit, w)
      | (Inl (Exception e), w) \<Rightarrow> (Inr (), emit (Print Msg_error_processing_artwork) w))"

text \<open>\<^verbatim>\<open>artwork_settings and artwork_settings.get('should_resize', False)\<close>.\<close>

definition wants_resize :: "artwork_settings option \<Rightarrow> bool" where
  "wants_resize a =
     (case a of
        None \<Rightarrow> False
      | Some settings \<Rightarrow> (case should_resize settings of None \<Rightarrow> False | Some b \<Rightarrow> b))"

definition artwork_block :: "env \<Rightarrow> path \<Rightarrow> artwork_settings option \<Rightarrow> world \<Rightarrow> (raised + unit) \<times> world" where
  "artwork_block en file_location a w =
     (case a of
        None \<Rightarrow> (Inr (), w)
      | Some settings \<Rightarrow>
          if isfile (fs w) file_location \<and> wants_resize a
          then artwork_except (artwork_try en file_location settings w)
          else (Inr (), w))"

section \<open>The entry point\<close>

text \<open>
  The two transports of \<^verbatim>\<open>download_file\<close>, after the test of the destination: the
  accelerator when the probe reports it, then the request when \<^verbatim>\<open>aria2c_used\<close> is
  still false. The parameter \<^verbatim>\<open>indent_level\<close> only indents what is printed and is left
  out, as is the wording of the messages.
\<close>

definition accelerator_stage :: "env \<Rightarrow> string \<Rightarrow> path \<Rightarrow> header_map \<Rightarrow> bool \<Rightarrow> world \<Rightarrow> (raised + bool) \<times> world" where
  "accelerator_stage en url file_location headers enable_progress_bar w =
     (case is_aria2c_installed en w of
        (Inl e, w1) \<Rightarrow> (Inl e, w1)
      | (Inr installed, w1) \<Rightarrow>
          if installed then aria2c_block en url file_location headers enable_progress_bar w1
          else (Inr False, w1))"

definition transfer :: "env \<Rightarrow> string \<Rightarrow> path \<Rightarrow> header_map \<Rightarrow> bool \<Rightarrow> world \<Rightarrow> (raised + unit) \<times> world" where
  "transfer en url file_location headers enable_progress_bar w =
     (case accelerator_stage en url file_location headers enable_progress_bar w of
        (Inl e, w1) \<Rightarrow> (Inl e, w1)
      | (Inr aria2c_used, w1) \<Rightarrow>
          if \<not> aria2c_used then requests_block en url file_location headers w1
          else (Inr (), w1))"

definition download_file :: "env \<Rightarrow> string \<Rightarrow> path \<Rightarrow> header_map \<Rightarrow> bool \<Rightarrow> artwork_settings option \<Rightarrow> world \<Rightarrow> (raised + unit) \<times> world" where
  "download_file en url file_location headers enable_progress_bar artwork w =
     (if isfile (fs w) file_location then (Inr (), w)
      else
        case transfer en url file_location headers enable_progress_bar w of
          (Inl e, w1) \<Rightarrow> (Inl e, w1)
        | (Inr _, w1) \<Rightarrow> artwork_block en file_location artwork w1)"

section \<open>Concrete runs\<close>

text \<open>
  A fresh process with an empty working directory, and an outside where everything
  works: the accelerator is installed and fetches the file, the server answers 200 with
  three chunks (the second is empty), the image library decodes a 640 by 480 picture. The runs below change one
  answer at a time.
\<close>

definition fresh_world :: world where
  "fresh_world = \<lparr>fs = Map.empty, aria2c_installed = None, trace = []\<rparr>"

definition ok_response :: response where
  "ok_response =
     \<lparr>status_code = 200, content_length = Some (Inr 3), body = [[1, 2], [], [3]],
      body_raises = None\<rparr>"

definition sample_encode :: "image \<Rightarrow> string \<Rightarrow> save_params \<Rightarrow> bytes" where
  "sample_encode im fmt params =
     [nat (fst (im_size im)), nat (snd (im_size im)),
      (if fmt = ''jpeg'' then 1 else if fmt = ''png'' then 2 else 0),
      (case params of No_params \<Rightarrow> 0 | Quality q \<Rightarrow> nat q | Compress_level l \<Rightarrow> nat l)]"

definition ok_env :: env where
  "ok_env =
     \<lparr>version_run = RunCompleted 0 ''aria2 version 1.36.0'' [],
      download_run = RunCompleted 0 [] [],
      download_leaves = Some [1, 2, 3],
      dir_st_size = 4096,
      session_get = GetResponse ok_response,
      image_open = (\<lambda>b. Inr \<lparr>im_mode = ''P'', im_size = (640, 480)\<rparr>),
      image_convert_raises = None,
      image_resize_raises = None,
      image_save = SaveOk,
      image_encode = sample_encode\<rparr>"

text \<open>The accelerator exits with status 1 and leaves three bytes; the server answers 404.\<close>

definition partial_then_404_env :: env where
  "partial_then_404_env =
     ok_env\<lparr>download_run := RunCompleted 1 [] ''download aborted'',
            session_get := GetResponse (ok_response\<lparr>status_code := 404\<rparr>)\<rparr>"

text \<open>The accelerator exits with status 1 and leaves nothing; the request succeeds.\<close>

definition accelerator_fails_env :: env where
  "accelerator_fails_env =
     ok_env\<lparr>download_run := RunCompleted 1 [] ''download aborted'',
            download_leaves := None\<rparr>"

text \<open>The probe found the accelerator earlier in the process; the binary is gone now.\<close>

definition probed_world :: world where
  "probed_world = fresh_world\<lparr>aria2c_installed := Some True\<rparr>"

definition binary_gone_env :: env where
  "binary_gone_env =
     ok_env\<lparr>download_run := RunRaises (Exception FileNotFoundError),
            download_leaves := None\<rparr>"

text \<open>No accelerator; the directory \<^verbatim>\<open>out\<close> exists or not.\<close>

definition no_accelerator_world :: world where
  "no_accelerator_world = fresh_world\<lparr>aria2c_installed := Some False\<rparr>"

definition no_accelerator_out_world :: world where
  "no_accelerator_out_world =
     \<lparr>fs = [''out'' \<mapsto> Dir], aria2c_installed = Some False, trace = []\<rparr>"

text \<open>The transfer is interrupted from the keyboard after the first chunk.\<close>

definition interrupted_env :: env where
  "interrupted_env =
     ok_env\<lparr>session_get :=
              GetResponse (ok_response\<lparr>body := [[1, 2]], body_raises := Some KeyboardInterrupt\<rparr>)\<rparr>"

text \<open>The file \<^verbatim>\<open>out/a.bin\<close> is already there.\<close>

definition existing_world :: world where
  "existing_world =
     \<lparr>fs = [''out'' \<mapsto> Dir, ''out/a.bin'' \<mapsto> File [7, 7]], aria2c_installed = None, trace = []\<rparr>"

text \<open>The downloaded bytes are no image.\<close>

definition corrupt_image_env :: env where
  "corrupt_image_env = ok_env\<lparr>image_open := (\<lambda>b. Inl (Exception ImageError))\<rparr>"

definition cover_settings :: artwork_settings where
  "cover_settings =
     \<lparr>should_resize = Some True, resolution = Some 500, format = Some ''JPG'',
      compression = Some ''high''\<rparr>"

text \<open>
  The download is a picture with an alpha channel; saving it raises after the file was
  opened for writing, which leaves the file empty.
\<close>

definition rgba_save_fails_env :: env where
  "rgba_save_fails_env =
     ok_env\<lparr>image_open := (\<lambda>b. Inr \<lparr>im_mode = ''RGBA'', im_size = (640, 480)\<rparr>),
            image_save := SaveRaises (Exception OSError) (Some [])\<rparr>"

text \<open>Settings for the other formats.\<close>

definition png_settings :: artwork_settings where
  "png_settings =
     \<lparr>should_resize = Some True, resolution = Some 300, format = Some ''png'',
      compression = Some ''high''\<rparr>"

definition webp_settings :: artwork_settings where
  "webp_settings =
     \<lparr>should_resize = Some True, resolution = Some 64, format = Some ''WebP'',
      compression = Some ''low''\<rparr>"

definition bearer_headers :: header_map where
  "bearer_headers = [(''Authorization'', ''Bearer X'')]"

section \<open>Properties\<close>

lemmas run_defs =
  download_file_def transfer_def accelerator_stage_def is_aria2c_installed_def
  aria2c_block_def aria2c_try_def aria2c_except_def aria2c_command_def header_argument_def
  requests_block_def write_body_def write_except_def silentremove_def
  artwork_block_def artwork_try_def artwork_except_def wants_resize_def
  image_load_def image_convert_def image_resize_def image_save_to_def
  new_resolution_def new_format_def compression_setting_def new_compression_quality_def
  subprocess_run_def emit_def
  isfile_def exists_path_def getsize_def os_remove_def os_makedirs_def os_open_wb_def
  parent_exists_def dirname_def basename_def lower_def lower_char_def Let_def

lemmas example_defs =
  fresh_world_def ok_response_def sample_encode_def ok_env_def partial_then_404_env_def
  accelerator_fails_env_def probed_world_def binary_gone_env_def no_accelerator_world_def
  no_accelerator_out_world_def interrupted_env_def existing_world_def corrupt_image_env_def
  cover_settings_def bearer_headers_def rgba_save_fails_env_def png_settings_def
  webp_settings_def

subsection \<open>The destination is already there\<close>

text \<open>
  C3. When the destination already is a regular file, \<open>download_file\<close> returns at once:
  the state it returns is the state it was given, so no request was sent, no subprocess
  was started (not even the probe) and the file has the content it had.
\<close>

theorem download_file_existing_is_noop:
  "isfile (fs w) file_location \<Longrightarrow>
   download_file en url file_location headers enable_progress_bar artwork w = (Inr (), w)"
  by (simp add: download_file_def)

theorem download_file_existing_is_noop_witness:
  "isfile (fs existing_world) ''out/a.bin'' \<and>
   download_file ok_env ''http://h/a'' ''out/a.bin'' bearer_headers True None existing_world
     = (Inr (), existing_world)"
  using download_file_existing_is_noop
          [of existing_world "''out/a.bin''" ok_env "''http://h/a''" bearer_headers True None]
  by (simp add: isfile_def existing_world_def)

text \<open>
  C10. When the destination already is a regular file and the artwork settings ask for
  a resize, the call still changes neither the filesystem nor the list of outside calls:
  the image is not opened, resized or saved again.
\<close>

theorem existing_destination_is_not_reencoded:
  "isfile (fs w) file_location \<Longrightarrow> wants_resize (Some settings) \<Longrightarrow>
   fs (snd (download_file en url file_location headers enable_progress_bar (Some settings) w))
     = fs w \<and>
   trace (snd (download_file en url file_location headers enable_progress_bar (Some settings) w))
     = trace w"
  by (simp add: download_file_def)

theorem existing_destination_is_not_reencoded_witness:
  "isfile (fs existing_world) ''out/a.bin'' \<and> wants_resize (Some cover_settings) \<and>
   fs (snd (download_file ok_env ''http://h/a'' ''out/a.bin'' [] False (Some cover_settings)
              existing_world)) ''out/a.bin'' = Some (File [7, 7]) \<and>
   trace (snd (download_file ok_env ''http://h/a'' ''out/a.bin'' [] False (Some cover_settings)
              existing_world)) = []"
  using existing_destination_is_not_reencoded
          [of existing_world "''out/a.bin''" cover_settings ok_env "''http://h/a''" "[]" False]
  by (simp add: isfile_def wants_resize_def existing_world_def cover_settings_def)

subsection \<open>The session\<close>

text \<open>
  C5. Whatever adapters a new session starts with, the session that
  \<open>create_requests_session\<close> returns serves both \<^verbatim>\<open>http://\<close> and \<^verbatim>\<open>https://\<close> through an
  adapter whose retry policy has a total of 10, a backoff factor of 0.4 (the fraction
  2/5) and exactly the statuses 429, 500, 502, 503 and 504 in its force list.
\<close>

theorem create_requests_session_retry_policy:
  "\<exists>retries.
     map_of (create_requests_session new_session) ''http://'' = Some (HTTPAdapter retries) \<and>
     map_of (create_requests_session new_session) ''https://'' = Some (HTTPAdapter retries) \<and>
     retry_total retries = 10 \<and>
     backoff_factor retries = 2 / 5 \<and>
     set (status_forcelist retries) = {429, 500, 502, 503, 504}"
  by (simp add: create_requests_session_def mount_def Let_def)

subsection \<open>The cached probe\<close>

text \<open>
  Once the probe has cached an answer, no block of \<open>download_file\<close> writes the cache:
  the only assignments to the module global are those of \<open>is_aria2c_installed\<close>, made
  when the cache is still empty.
\<close>

lemma silentremove_keeps_probe:
  "silentremove p w = (r, w') \<Longrightarrow> aria2c_installed w' = aria2c_installed w"
  by (auto simp: silentremove_def emit_def Let_def split: sum.splits if_splits)

lemma aria2c_try_keeps_probe:
  "aria2c_try en cmd p pb w = (r, w') \<Longrightarrow> aria2c_installed w' = aria2c_installed w"
  by (auto simp: aria2c_try_def emit_def Let_def subprocess_run_def
      dest!: silentremove_keeps_probe
      split: sum.splits prod.splits option.splits run_result.splits if_splits)

lemma aria2c_except_keeps_probe:
  "aria2c_except p (r0, w) = (r, w') \<Longrightarrow> aria2c_installed w' = aria2c_installed w"
  by (auto simp: aria2c_except_def emit_def Let_def
      dest!: silentremove_keeps_probe
      split: sum.splits prod.splits raised.splits if_splits)

lemma aria2c_block_keeps_probe:
  assumes "aria2c_block en url p headers pb w = (r, w')"
  shows "aria2c_installed w' = aria2c_installed w"
proof (cases "os_makedirs (fs w) (dirname p)")
  case (Inl e)
  with assms show ?thesis
    by (auto simp: aria2c_block_def emit_def Let_def)
next
  case (Inr fsys)
  let ?w = "(emit (MakeDirs (dirname p)) w)\<lparr>fs := fsys\<rparr>"
  let ?cmd = "aria2c_command (dirname p) (basename p) headers url"
  obtain r0 w0 where t: "aria2c_try en ?cmd p pb ?w = (r0, w0)"
    by (cases "aria2c_try en ?cmd p pb ?w")
  with Inr assms have "aria2c_except p (r0, w0) = (r, w')"
    by (simp add: aria2c_block_def emit_def Let_def)
  then show ?thesis
    using aria2c_except_keeps_probe aria2c_try_keeps_probe [OF t]
    by (fastforce simp: emit_def)
qed

lemma write_body_keeps_probe:
  "write_body r p w = (x, w') \<Longrightarrow> aria2c_installed w' = aria2c_installed w"
  by (auto simp: write_body_def emit_def Let_def split: sum.splits option.splits)

lemma write_except_keeps_probe:
  "write_except p (r0, w) = (r, w') \<Longrightarrow> aria2c_installed w' = aria2c_installed w"
  by (auto simp: write_except_def dest!: silentremove_keeps_probe
      split: sum.splits prod.splits raised.splits if_splits)

lemma requests_block_keeps_probe:
  assumes "requests_block en url p headers w = (r, w')"
  shows "aria2c_installed w' = aria2c_installed w"
proof -
  let ?w = "emit (SessionGet url headers) w"
  have e: "aria2c_installed ?w = aria2c_installed w"
    by (simp add: emit_def)
  have "\<And>resp. write_except p (write_body resp p ?w) = (r, w') \<Longrightarrow>
          aria2c_installed w' = aria2c_installed w"
  proof -
    fix resp
    assume a: "write_except p (write_body resp p ?w) = (r, w')"
    obtain r0 w0 where b: "write_body resp p ?w = (r0, w0)"
      by (cases "write_body resp p ?w")
    from a b write_except_keeps_probe [of p r0 w0 r w'] write_body_keeps_probe [OF b] e
    show "aria2c_installed w' = aria2c_installed w" by simp
  qed
  with assms e show ?thesis
    by (auto simp: requests_block_def Let_def
        split: get_result.splits option.splits sum.splits if_splits)
qed

lemma artwork_try_keeps_probe:
  "artwork_try en p s w = (r, w') \<Longrightarrow> aria2c_installed w' = aria2c_installed w"
  by (auto simp: artwork_try_def image_load_def
        image_convert_def image_resize_def image_save_to_def emit_def Let_def
      split: sum.splits prod.splits option.splits node.splits save_result.splits if_splits)

lemma artwork_block_keeps_probe:
  "artwork_block en p a w = (r, w') \<Longrightarrow> aria2c_installed w' = aria2c_installed w"
  by (auto simp: artwork_block_def artwork_except_def emit_def
      dest!: artwork_try_keeps_probe
      split: sum.splits prod.splits raised.splits option.splits if_splits)

lemma cached_probe_is_kept:
  assumes "aria2c_installed w = Some b"
  shows "aria2c_installed (snd (download_file en url p headers pb a w)) = Some b"
proof -
  obtain r1 w1 where s1: "accelerator_stage en url p headers pb w = (r1, w1)"
    by (cases "accelerator_stage en url p headers pb w")
  have p1: "aria2c_installed w1 = Some b"
    using assms s1
    by (auto simp: accelerator_stage_def is_aria2c_installed_def
        dest!: aria2c_block_keeps_probe split: if_splits)
  obtain r2 w2 where s2: "transfer en url p headers pb w = (r2, w2)"
    by (cases "transfer en url p headers pb w")
  have p2: "aria2c_installed w2 = Some b"
    using s1 s2 p1
    by (auto simp: transfer_def dest!: requests_block_keeps_probe split: sum.splits if_splits)
  obtain r3 w3 where s3: "download_file en url p headers pb a w = (r3, w3)"
    by (cases "download_file en url p headers pb a w")
  have "aria2c_installed w3 = Some b"
    using assms s2 s3 p2
    by (auto simp: download_file_def dest!: artwork_block_keeps_probe
        split: sum.splits if_splits)
  with s3 show ?thesis by simp
qed


subsection \<open>Runs that leave a file behind\<close>

text \<open>
  C1. In a fresh process the accelerator is probed and run; it exits with status 1 and
  leaves three bytes at the destination, which the size test keeps because they are not
  zero bytes; the request then answers 404 and \<^verbatim>\<open>raise_for_status\<close> raises outside the
  \<^verbatim>\<open>try\<close> that cleans up. The call fails with the HTTP error and the three bytes are
  still at the destination, as a regular file.
\<close>

theorem partial_file_survives_failed_fallback:
  "fst (download_file partial_then_404_env ''http://h/a'' ''out/a.bin'' [] False None fresh_world)
     = Inl (Exception (HTTPError 404)) \<and>
   fs (snd (download_file partial_then_404_env ''http://h/a'' ''out/a.bin'' [] False None
              fresh_world)) ''out/a.bin'' = Some (File [1, 2, 3])"
  by (simp add: run_defs example_defs)

text \<open>
  C2. The probe has cached \<open>True\<close> and the binary is gone: the accelerator run raises
  \<^verbatim>\<open>FileNotFoundError\<close>. After the call the cached value is still \<open>True\<close>, and the next
  call, for another destination, starts the accelerator again.
\<close>

theorem binary_not_found_keeps_cached_probe:
  "aria2c_installed
     (snd (download_file binary_gone_env ''http://h/a'' ''out/a.bin'' [] False None probed_world))
     = Some True \<and>
   SubprocessRun (aria2c_command ''out'' ''b.bin'' [] ''http://h/b'')
     \<in> set (trace (snd (download_file binary_gone_env ''http://h/b'' ''out/b.bin'' [] False None
         (snd (download_file binary_gone_env ''http://h/a'' ''out/a.bin'' [] False None
                 probed_world)))))"
  by (simp add: run_defs example_defs)

text \<open>
  C4. Without the accelerator, the request answers 200, one chunk of two bytes is
  written and the loop is then interrupted from the keyboard. \<^verbatim>\<open>KeyboardInterrupt\<close> is
  not an \<^verbatim>\<open>Exception\<close>, the handler of the write block does not run, and the call ends
  with the interrupt while the two bytes stay at the destination.
\<close>

theorem interrupted_write_leaves_partial_file:
  "fst (download_file interrupted_env ''http://h/a'' ''out/a.bin'' [] False None
          no_accelerator_out_world) = Inl KeyboardInterrupt \<and>
   fs (snd (download_file interrupted_env ''http://h/a'' ''out/a.bin'' [] False None
              no_accelerator_out_world)) ''out/a.bin'' = Some (File [1, 2])"
  by (simp add: run_defs example_defs)

text \<open>
  C6. Without the accelerator and without the directory \<^verbatim>\<open>out\<close>, the call sends the
  request and opens the destination for writing; no directory is created in between, and
  the call fails with \<^verbatim>\<open>FileNotFoundError\<close>. With the accelerator installed, even one that
  fails, the same call creates the directory first and the request then succeeds.
\<close>

theorem fallback_alone_creates_no_directory:
  "download_file ok_env ''http://h/a'' ''out/a.bin'' [] False None no_accelerator_world
     = (Inl (Exception FileNotFoundError),
        no_accelerator_world\<lparr>trace := [SessionGet ''http://h/a'' [], OpenWrite ''out/a.bin'']\<rparr>) \<and>
   fst (download_file accelerator_fails_env ''http://h/a'' ''out/a.bin'' [] False None fresh_world)
     = Inr () \<and>
   fs (snd (download_file accelerator_fails_env ''http://h/a'' ''out/a.bin'' [] False None
              fresh_world)) ''out'' = Some Dir"
  by (simp add: run_defs example_defs)

subsection \<open>Artwork\<close>









text \<open>
  C8. The destination holds a file that the image library decodes, the settings ask for
  a resize to \<open>r\<close>, and no library call fails. Then the artwork step opens the file,
  converts the image to \<^verbatim>\<open>RGB\<close> when its mode is \<^verbatim>\<open>P\<close>, resizes it to \<open>(r, r)\<close> with
  the bicubic filter whatever its size was, and saves it at the destination; these are
  all its outside calls, and the destination then holds the encoding of the resized
  image. The format saved is the \<^verbatim>\<open>format\<close> key of the settings in lower case
  (\<^verbatim>\<open>jpeg\<close> when the key is absent), with \<^verbatim>\<open>jpg\<close> read as \<^verbatim>\<open>jpeg\<close>. For the key
  \<^verbatim>\<open>jpeg\<close> the save has quality 90 when the \<^verbatim>\<open>compression\<close> key is \<^verbatim>\<open>low\<close> and 70
  when it is \<^verbatim>\<open>high\<close>; for the key \<^verbatim>\<open>png\<close> it has compression level 6 whatever the
  compression key; for any other format it has no parameter.
\<close>

theorem artwork_resizes_square_and_encodes:
  assumes "fs w file_location = Some (File b)"
    and "wants_resize (Some settings)"
    and "resolution settings = Some r"
    and "image_open en b = Inr im"
    and "image_convert_raises en = None"
    and "image_resize_raises en = None"
    and "image_save en = SaveOk"
  shows "(let f = lower (case format settings of None \<Rightarrow> ''jpeg'' | Some x \<Rightarrow> x);
              c = lower (case compression settings of None \<Rightarrow> ''low'' | Some x \<Rightarrow> x);
              fmt = (if f = ''jpg'' then ''jpeg'' else f);
              params = (if fmt = ''jpeg'' then Quality (if c = ''high'' then 70 else 90)
                        else if fmt = ''png'' then Compress_level 6
                        else No_params);
              colour = (if im_mode im = ''P'' then im\<lparr>im_mode := ''RGB''\<rparr> else im)
          in artwork_block en file_location (Some settings) w =
               (Inr (),
                w\<lparr>fs := (fs w)(file_location \<mapsto>
                           File (image_encode en (colour\<lparr>im_size := (r, r)\<rparr>) fmt params)),
                  trace := trace w @ [ImageOpen file_location]
                           @ (if im_mode im = ''P'' then [ImageConvert ''RGB''] else [])
                           @ [ImageResize (r, r) BICUBIC, ImageSave file_location fmt params]\<rparr>))
         \<and> (format settings = Some ''jpeg'' \<and> compression settings = Some ''low'' \<longrightarrow>
              last (trace (snd (artwork_block en file_location (Some settings) w)))
                = ImageSave file_location ''jpeg'' (Quality 90))
         \<and> (format settings = Some ''jpeg'' \<and> compression settings = Some ''high'' \<longrightarrow>
              last (trace (snd (artwork_block en file_location (Some settings) w)))
                = ImageSave file_location ''jpeg'' (Quality 70))
         \<and> (format settings = Some ''png'' \<longrightarrow>
              last (trace (snd (artwork_block en file_location (Some settings) w)))
                = ImageSave file_location ''png'' (Compress_level 6))
         \<and> (\<forall>x. format settings = Some x \<and> lower x \<noteq> ''jpeg'' \<and> lower x \<noteq> ''jpg''
                  \<and> lower x \<noteq> ''png'' \<longrightarrow>
              last (trace (snd (artwork_block en file_location (Some settings) w)))
                = ImageSave file_location (lower x) No_params)"
proof -
  have run: "artwork_block en file_location (Some settings) w =
      (Inr (),
       w\<lparr>fs := (fs w)(file_location \<mapsto>
              File (image_encode en
                 ((if im_mode im = ''P'' then im\<lparr>im_mode := ''RGB''\<rparr> else im)\<lparr>im_size := (r, r)\<rparr>)
                 (new_format settings)
                 (if new_format settings = ''jpeg'' then Quality (new_compression_quality settings)
                  else if new_format settings = ''png'' then Compress_level 6 else No_params))),
         trace := trace w @ [ImageOpen file_location]
                  @ (if im_mode im = ''P'' then [ImageConvert ''RGB''] else [])
                  @ [ImageResize (r, r) BICUBIC,
                     ImageSave file_location (new_format settings)
                       (if new_format settings = ''jpeg''
                        then Quality (new_compression_quality settings)
                        else if new_format settings = ''png'' then Compress_level 6
                        else No_params)]\<rparr>)"
    using assms
    by (simp add: artwork_block_def artwork_try_def artwork_except_def isfile_def
          image_load_def image_convert_def image_resize_def image_save_to_def emit_def Let_def
          new_resolution_def)
  have low: "lower ''low'' = ''low''" and high: "lower ''high'' = ''high''"
    and jpeg: "lower ''jpeg'' = ''jpeg''" and png: "lower ''png'' = ''png''"
    by (simp_all add: lower_def lower_char_def)
  show ?thesis
    unfolding run
    by (simp add: Let_def new_format_def new_compression_quality_def compression_setting_def
          low high jpeg png)
qed

theorem artwork_resizes_square_and_encodes_witness:
  "fs existing_world ''out/a.bin'' = Some (File [7, 7]) \<and>
   wants_resize (Some cover_settings) \<and> resolution cover_settings = Some 500 \<and>
   wants_resize (Some png_settings) \<and> resolution png_settings = Some 300 \<and>
   wants_resize (Some webp_settings) \<and> resolution webp_settings = Some 64 \<and>
   image_open ok_env [7, 7] = Inr \<lparr>im_mode = ''P'', im_size = (640, 480)\<rparr> \<and>
   image_convert_raises ok_env = None \<and> image_resize_raises ok_env = None \<and>
   image_save ok_env = SaveOk \<and>
   artwork_block ok_env ''out/a.bin'' (Some cover_settings) existing_world =
     (Inr (),
      existing_world
        \<lparr>fs := (fs existing_world)(''out/a.bin'' \<mapsto> File [500, 500, 1, 70]),
         trace := [ImageOpen ''out/a.bin'', ImageConvert ''RGB'',
                   ImageResize (500, 500) BICUBIC,
                   ImageSave ''out/a.bin'' ''jpeg'' (Quality 70)]\<rparr>) \<and>
   artwork_block ok_env ''out/a.bin'' (Some png_settings) existing_world =
     (Inr (),
      existing_world
        \<lparr>fs := (fs existing_world)(''out/a.bin'' \<mapsto> File [300, 300, 2, 6]),
         trace := [ImageOpen ''out/a.bin'', ImageConvert ''RGB'',
                   ImageResize (300, 300) BICUBIC,
                   ImageSave ''out/a.bin'' ''png'' (Compress_level 6)]\<rparr>) \<and>
   artwork_block ok_env ''out/a.bin'' (Some webp_settings) existing_world =
     (Inr (),
      existing_world
        \<lparr>fs := (fs existing_world)(''out/a.bin'' \<mapsto> File [64, 64, 0, 0]),
         trace := [ImageOpen ''out/a.bin'', ImageConvert ''RGB'',
                   ImageResize (64, 64) BICUBIC,
                   ImageSave ''out/a.bin'' ''webp'' No_params]\<rparr>)"
  using artwork_resizes_square_and_encodes [of existing_world "''out/a.bin''" "[7, 7]" cover_settings 500 ok_env
              "\<lparr>im_mode = ''P'', im_size = (640, 480)\<rparr>"]
        artwork_resizes_square_and_encodes [of existing_world "''out/a.bin''" "[7, 7]" png_settings 300 ok_env
              "\<lparr>im_mode = ''P'', im_size = (640, 480)\<rparr>"]
        artwork_resizes_square_and_encodes [of existing_world "''out/a.bin''" "[7, 7]" webp_settings 64 ok_env
              "\<lparr>im_mode = ''P'', im_size = (640, 480)\<rparr>"]
  by (simp add: run_defs example_defs)


subsection \<open>Headers\<close>

text \<open>Every block keeps the outside calls made before it.\<close>

lemma trace_silentremove: "set (trace w) \<subseteq> set (trace (snd (silentremove p w)))"
  by (auto simp: silentremove_def emit_def Let_def split: sum.splits)

lemma aria2c_try_runs_command:
  "SubprocessRun cmd \<in> set (trace (snd (aria2c_try en cmd p pb w)))"
  by (auto simp: aria2c_try_def emit_def Let_def subprocess_run_def silentremove_def
           split: sum.splits option.splits prod.splits run_result.splits if_splits)

lemma trace_aria2c_except:
  "set (trace (snd r)) \<subseteq> set (trace (snd (aria2c_except p r)))"
  by (auto simp: aria2c_except_def emit_def Let_def silentremove_def
           split: sum.splits prod.splits raised.splits if_splits)

lemma aria2c_block_runs_command:
  assumes "os_makedirs (fs w) (dirname p) = Inr fsys"
  shows "SubprocessRun (aria2c_command (dirname p) (basename p) headers url)
           \<in> set (trace (snd (aria2c_block en url p headers pb w)))"
proof -
  let ?cmd = "aria2c_command (dirname p) (basename p) headers url"
  let ?w = "(emit (MakeDirs (dirname p)) w)\<lparr>fs := fsys\<rparr>"
  have "aria2c_block en url p headers pb w = aria2c_except p (aria2c_try en ?cmd p pb ?w)"
    using assms by (simp add: aria2c_block_def Let_def emit_def)
  then show ?thesis
    using aria2c_try_runs_command [of ?cmd en p pb ?w]
          trace_aria2c_except [of "aria2c_try en ?cmd p pb ?w" p]
    by auto
qed

lemma trace_write_body: "set (trace w) \<subseteq> set (trace (snd (write_body r p w)))"
  by (auto simp: write_body_def emit_def Let_def split: sum.splits option.splits)

lemma trace_write_except: "set (trace (snd r)) \<subseteq> set (trace (snd (write_except p r)))"
  by (auto simp: write_except_def emit_def Let_def silentremove_def
           split: sum.splits prod.splits raised.splits if_splits)

lemma trace_requests_block:
  "set (trace w) \<subseteq> set (trace (snd (requests_block en url p headers w)))"
proof -
  let ?w = "emit (SessionGet url headers) w"
  have "set (trace w) \<subseteq> set (trace ?w)"
    by (auto simp: emit_def)
  moreover have "set (trace ?w) \<subseteq> set (trace (snd (requests_block en url p headers w)))"
    using trace_write_except [of "write_body r p ?w" p for r] trace_write_body [of ?w r p for r]
    by (auto simp: requests_block_def Let_def split: get_result.splits option.splits sum.splits)
  ultimately show ?thesis by blast
qed

lemma requests_block_sends_headers:
  "SessionGet url headers \<in> set (trace (snd (requests_block en url p headers w)))"
proof -
  let ?w = "emit (SessionGet url headers) w"
  have "SessionGet url headers \<in> set (trace ?w)"
    by (simp add: emit_def)
  moreover have "set (trace ?w) \<subseteq> set (trace (snd (requests_block en url p headers w)))"
    using trace_write_except [of "write_body r p ?w" p for r] trace_write_body [of ?w r p for r]
    by (auto simp: requests_block_def Let_def split: get_result.splits option.splits sum.splits)
  ultimately show ?thesis by blast
qed

lemma trace_artwork_try: "set (trace w) \<subseteq> set (trace (snd (artwork_try en p s w)))"
  by (auto simp: artwork_try_def image_load_def image_convert_def image_resize_def
        image_save_to_def emit_def Let_def
      split: sum.splits option.splits prod.splits node.splits save_result.splits if_splits)

lemma trace_artwork_except: "set (trace (snd r)) \<subseteq> set (trace (snd (artwork_except r)))"
  by (auto simp: artwork_except_def emit_def split: sum.splits prod.splits raised.splits)

lemma trace_artwork_block: "set (trace w) \<subseteq> set (trace (snd (artwork_block en p a w)))"
  using trace_artwork_try [of w en p] trace_artwork_except [of "artwork_try en p s w" for s]
  by (auto simp: artwork_block_def split: option.splits)

lemma trace_after_transfer:
  assumes "\<not> isfile (fs w) p"
  shows "set (trace (snd (transfer en url p headers pb w)))
           \<subseteq> set (trace (snd (download_file en url p headers pb a w)))"
  using assms trace_artwork_block [of "snd (transfer en url p headers pb w)" en p a]
  by (auto simp: download_file_def split: prod.splits sum.splits)

lemma trace_after_accelerator_stage:
  "set (trace (snd (accelerator_stage en url p headers pb w)))
     \<subseteq> set (trace (snd (transfer en url p headers pb w)))"
  using trace_requests_block [of "snd (accelerator_stage en url p headers pb w)" en url p headers]
  by (auto simp: transfer_def split: prod.splits sum.splits)

text \<open>
  C9. For a destination that is not there yet: when the probe reports the accelerator and
  the directory can be made, the accelerator is run with the command of
  \<open>aria2c_command\<close> for the given headers; when the accelerator stage ends without having
  fetched the file, the request is sent with the given URL and the same header map.
  The command is the command without headers, with one \<^verbatim>\<open>--header=name: value\<close>
  argument for each entry, in order, put before the URL, which stays last.
\<close>

theorem headers_reach_both_transports:
  assumes "\<not> isfile (fs w) file_location"
  shows "(\<forall>w1 fsys.
            is_aria2c_installed en w = (Inr True, w1) \<and>
            os_makedirs (fs w1) (dirname file_location) = Inr fsys \<longrightarrow>
            SubprocessRun (aria2c_command (dirname file_location) (basename file_location)
                             headers url)
              \<in> set (trace (snd (download_file en url file_location headers
                                   enable_progress_bar artwork w)))) \<and>
         (\<forall>w2.
            accelerator_stage en url file_location headers enable_progress_bar w
              = (Inr False, w2) \<longrightarrow>
            SessionGet url headers
              \<in> set (trace (snd (download_file en url file_location headers
                                   enable_progress_bar artwork w)))) \<and>
         aria2c_command directory filename headers url
           = butlast (aria2c_command directory filename [] url)
             @ map (\<lambda>(key, val). ''--header='' @ key @ '': '' @ val) headers @ [url]"
proof (intro conjI allI impI)
  fix w1 fsys
  assume h: "is_aria2c_installed en w = (Inr True, w1) \<and>
             os_makedirs (fs w1) (dirname file_location) = Inr fsys"
  then have "accelerator_stage en url file_location headers enable_progress_bar w
               = aria2c_block en url file_location headers enable_progress_bar w1"
    by (simp add: accelerator_stage_def)
  with h have "SubprocessRun (aria2c_command (dirname file_location) (basename file_location)
                  headers url)
        \<in> set (trace (snd (accelerator_stage en url file_location headers
                             enable_progress_bar w)))"
    using aria2c_block_runs_command [of w1 file_location fsys headers url en enable_progress_bar]
    by simp
  then show "SubprocessRun (aria2c_command (dirname file_location) (basename file_location)
                  headers url)
        \<in> set (trace (snd (download_file en url file_location headers
                             enable_progress_bar artwork w)))"
    using trace_after_accelerator_stage [of en url file_location headers enable_progress_bar w]
          trace_after_transfer [OF assms, of en url headers enable_progress_bar artwork]
    by blast
next
  fix w2
  assume "accelerator_stage en url file_location headers enable_progress_bar w = (Inr False, w2)"
  then have "transfer en url file_location headers enable_progress_bar w
               = requests_block en url file_location headers w2"
    by (simp add: transfer_def)
  then have "SessionGet url headers
        \<in> set (trace (snd (transfer en url file_location headers enable_progress_bar w)))"
    using requests_block_sends_headers [of url headers en file_location w2] by simp
  then show "SessionGet url headers
        \<in> set (trace (snd (download_file en url file_location headers
                             enable_progress_bar artwork w)))"
    using trace_after_transfer [OF assms, of en url headers enable_progress_bar artwork]
    by blast
next
  show "aria2c_command directory filename headers url
           = butlast (aria2c_command directory filename [] url)
             @ map (\<lambda>(key, val). ''--header='' @ key @ '': '' @ val) headers @ [url]"
    by (simp add: aria2c_command_def header_argument_def case_prod_beta)
qed

theorem headers_reach_both_transports_witness:
  "\<not> isfile (fs fresh_world) ''out/a.bin'' \<and>
   SubprocessRun
     [''aria2c'', ''--dir'', ''out'', ''--out'', ''a.bin'',
      ''--max-connection-per-server=8'', ''--min-split-size=1M'', ''--split=8'',
      ''--continue=true'', ''--auto-file-renaming=false'', ''--console-log-level=warn'',
      ''--show-console-readout=false'', ''--summary-interval=0'', ''--allow-overwrite=true'',
      ''--header=Authorization: Bearer X'', ''http://h/a'']
     \<in> set (trace (snd (download_file accelerator_fails_env ''http://h/a'' ''out/a.bin''
                          bearer_headers False None fresh_world))) \<and>
   SessionGet ''http://h/a'' [(''Authorization'', ''Bearer X'')]
     \<in> set (trace (snd (download_file accelerator_fails_env ''http://h/a'' ''out/a.bin''
                          bearer_headers False None fresh_world)))"
  using headers_reach_both_transports [of fresh_world "''out/a.bin''" accelerator_fails_env bearer_headers "''http://h/a''"
              False None]
  by (simp add: run_defs example_defs)

end
